theory Spec2Isabelle
  imports Complex_Main "HOL-Library.AList" "HOL-Library.Char_ord" "HOL-Library.List_Lexorder"
begin

section \<open>Proposal evaluation (class NextState)\<close>

text \<open>
  The seven result codes, in the order in which the static fields of the class number them
  (\<open>ADVANCE = 0\<close> up to \<open>ONE_DIRECTION = 6\<close>).
\<close>

datatype code = ADVANCE | ADVANCE_SHIFT | FAST_FORWARD | CONFIRM | LOTTERY_LOST | ROCK | ONE_DIRECTION

text \<open>
  The values of the language, as far as strict equality and the operator \<open>??\<close> tell
  them apart. \<open>Number\<close> is a finite number (the two zeros are one value, as they are
  for \<open>===\<close>), \<open>Infinity\<close> carries its sign, and \<open>Symbol\<close> and \<open>Object\<close> carry
  the identity of a symbol and of an object, array or function.
\<close>

datatype jsval =
    Undefined | Null | Boolean bool | Number real | NaN | Infinity bool | BigInt int
  | Str string | Symbol nat | Object nat

text \<open>\<open>a === b\<close>: the same value, except that \<open>NaN\<close> is not equal to itself.\<close>

definition strict_eq :: "jsval \<Rightarrow> jsval \<Rightarrow> bool" where
  "strict_eq a b = (a = b \<and> a \<noteq> NaN)"

text \<open>\<open>a ?? b\<close> on values, and on a field that is a string when it is present.\<close>

definition nullish_val :: "jsval \<Rightarrow> jsval \<Rightarrow> jsval" where
  "nullish_val a b = (if a = Undefined \<or> a = Null then b else a)"

definition nullish :: "'a option \<Rightarrow> 'a \<Rightarrow> 'a" where
  "nullish a b = (case a of None \<Rightarrow> b | Some v \<Rightarrow> v)"

text \<open>
  A logical time is a number with an integer value, held as that integer. The language
  adds in double precision: \<open>t + 1\<close> is the double nearest to the exact sum, with ties
  going to the even significand. \<open>spacing n\<close> is the distance between neighbouring
  doubles at the magnitude of \<open>n\<close> (1 below \<open>2^53 = 9007199254740992\<close>, doubling with
  each further binary digit), \<open>toDouble\<close> rounds an integer to a double, and \<open>plus1\<close>
  is \<open>t + 1\<close> as the language computes it. Lottery tickets are reals: they are only
  compared.
\<close>

function spacing :: "int \<Rightarrow> int" where
  "spacing n = (if \<bar>n\<bar> < 9007199254740992 then 1 else 2 * spacing (\<bar>n\<bar> div 2))"
  by pat_completeness auto
termination
  by (relation "measure (\<lambda>n. nat \<bar>n\<bar>)") auto

definition toDouble :: "int \<Rightarrow> int" where
  "toDouble n =
     (let u = spacing n; q = n div u; r = n mod u
      in if 2 * r < u then q * u
         else if u < 2 * r then (q + 1) * u
         else if even q then q * u else (q + 1) * u)"

definition plus1 :: "int \<Rightarrow> int" where
  "plus1 t = toDouble (t + 1)"

record next_state =
  state :: jsval
  time :: int
  lottery :: real

record proposal =
  p_next :: jsval
  p_state :: jsval
  p_time :: int
  p_lottery :: real

record evaluation =
  accept :: bool
  code :: code

text \<open>
  \<open>advance({next, time, lottery})\<close> builds \<open>new NextState({state: next, time, lottery})\<close>;
  the constructor stores \<open>state ?? ''\<close>. The proposal's time and lottery are numbers, so
  their defaults (\<open>?? 0\<close>, \<open>?? Math.random()\<close>) are never taken.
\<close>

definition advance :: "next_state \<Rightarrow> proposal \<Rightarrow> next_state" where
  "advance this p =
     \<lparr>state = nullish_val (p_next p) (Str []), time = p_time p, lottery = p_lottery p\<rparr>"

text \<open>
  \<open>evaluate\<close>: the result starts as \<open>{accept: false, code: 0}\<close> and each branch assigns
  both fields. The field \<open>reason\<close>, a message for the log, is not modelled.
\<close>

definition evaluate :: "next_state \<Rightarrow> proposal \<Rightarrow> evaluation" where
  "evaluate this p =
     (if p_time p > time this then
        (if p_time p > plus1 (time this) then \<lparr>accept = True, code = FAST_FORWARD\<rparr>
         else if strict_eq (p_state p) (state this) then \<lparr>accept = True, code = ADVANCE\<rparr>
         else \<lparr>accept = True, code = ADVANCE_SHIFT\<rparr>)
      else if p_time p = time this then
        (if strict_eq (p_next p) (state this) then \<lparr>accept = False, code = CONFIRM\<rparr>
         else if p_lottery p > lottery this then \<lparr>accept = True, code = LOTTERY_LOST\<rparr>
         else \<lparr>accept = False, code = ROCK\<rparr>)
      else if p_time p < time this then \<lparr>accept = False, code = ONE_DIRECTION\<rparr>
      else \<lparr>accept = False, code = ADVANCE\<rparr>)"

text \<open>
  \<open>propose(next)\<close>; the argument \<open>rnd\<close> is the value that \<open>Math.random()\<close> returns in
  the call.
\<close>

definition propose :: "next_state \<Rightarrow> jsval \<Rightarrow> real \<Rightarrow> proposal" where
  "propose this nxt rnd =
     \<lparr>p_next = nxt, p_state = state this, p_time = plus1 (time this), p_lottery = rnd\<rparr>"


section \<open>The peer mesh (classes PeerConnection and PeerGroup)\<close>

text \<open>
  Errors that a call can throw. \<open>ProtocolViolation\<close> is the string
  \<open>'The graph can only split, not join.'\<close> thrown by \<open>DivergingGraph.addEdge\<close>;
  \<open>TypeError\<close> is what the engine throws on reading a property of \<open>undefined\<close> or
  \<open>null\<close>, on calling a value that is not a function and on assigning to a \<open>const\<close>
  binding; \<open>InvalidStateError\<close> is what \<open>RTCDataChannel.send\<close> throws on a channel whose
  \<open>readyState\<close> is not \<open>'open'\<close>; \<open>OperationError\<close> stands for a rejected promise of
  the \<open>RTCPeerConnection\<close>.
\<close>

datatype error = ProtocolViolation | TypeError | InvalidStateError | OperationError

datatype channel_state = CHANNEL_CONNECTING | CHANNEL_OPEN | CHANNEL_CLOSING | CHANNEL_CLOSED

datatype signaling_state =
  Stable | HaveLocalOffer | HaveRemoteOffer | HaveLocalPranswer | HaveRemotePranswer | Closed

record description =
  d_type :: string
  sdp :: string

text \<open>What a link asks of its \<open>RTCPeerConnection\<close> and of its owner, in call order.\<close>

datatype call =
    SetRemoteDescription description
  | SetLocalDescription
  | AddIceCandidate string
  | SendOutOfBand
  | ConsoleError error

text \<open>
  The fields of a \<open>PeerConnection\<close>. \<open>connection\<close> is \<open>None\<close> when the field is
  \<open>null\<close>, else the \<open>signalingState\<close> of the \<open>RTCPeerConnection\<close>; \<open>channel\<close> is
  \<open>None\<close> when the field is \<open>null\<close>, else the \<open>readyState\<close> of the data channel.
  \<open>sent\<close> lists the strings written to the data channel and \<open>calls\<close> the calls made so
  far.
\<close>

record peer =
  localId :: string
  remoteId :: string
  ignoreOffer :: bool
  makingOffer :: bool
  polite :: bool
  connection :: "signaling_state option"
  channel :: "channel_state option"
  sent :: "string list"
  calls :: "call list"

text \<open>
  The answers of the platform to one call of \<open>negotiate\<close>: whether the promises of
  \<open>setRemoteDescription\<close>, \<open>setLocalDescription\<close> and \<open>addIceCandidate\<close> resolve.
\<close>

record platform =
  setRemote_ok :: bool
  setLocal_ok :: bool
  addIce_ok :: bool

text \<open>
  \<open>negotiate({candidate, description})\<close>, run to completion (each \<open>await\<close> resumes with the
  platform's answer; no other handler of the link is interleaved). Every throw inside the
  body is caught by the outer \<open>catch\<close> and logged. \<open>_makingOffer\<close>, \<open>_polite\<close>,
  \<open>connection\<close> and the old \<open>_ignoreOffer\<close> are read once, on entry.
\<close>

definition offerCollision :: "peer \<Rightarrow> description \<Rightarrow> error + bool" where
  "offerCollision this d =
     (if d_type d = ''offer'' then
        (if makingOffer this then Inr True
         else (case connection this of
                 None \<Rightarrow> Inl TypeError
               | Some st \<Rightarrow> Inr (st \<noteq> Stable)))
      else Inr False)"

definition negotiate :: "platform \<Rightarrow> string option \<Rightarrow> description option \<Rightarrow> peer \<Rightarrow> peer" where
  "negotiate pf candidate descr this =
     (case descr of
        Some d \<Rightarrow>
          (case offerCollision this d of
             Inl e \<Rightarrow> this\<lparr>calls := calls this @ [ConsoleError e]\<rparr>
           | Inr collision \<Rightarrow>
               let this1 = this\<lparr>ignoreOffer := \<not> polite this \<and> collision\<rparr> in
               if ignoreOffer this1 then this1
               else (case connection this of
                       None \<Rightarrow> this1\<lparr>calls := calls this1 @ [ConsoleError TypeError]\<rparr>
                     | Some st \<Rightarrow>
                         if \<not> setRemote_ok pf then
                           this1\<lparr>calls := calls this1 @ [SetRemoteDescription d, ConsoleError OperationError]\<rparr>
                         else if d_type d = ''offer'' then
                           (if \<not> setLocal_ok pf then
                              this1\<lparr>calls := calls this1 @
                                 [SetRemoteDescription d, SetLocalDescription, ConsoleError OperationError]\<rparr>
                            else
                              this1\<lparr>calls := calls this1 @
                                 [SetRemoteDescription d, SetLocalDescription, SendOutOfBand]\<rparr>)
                         else this1\<lparr>calls := calls this1 @ [SetRemoteDescription d]\<rparr>))
      | None \<Rightarrow>
          (case candidate of
             Some c \<Rightarrow>
               (case connection this of
                  None \<Rightarrow>
                    if ignoreOffer this then this
                    else this\<lparr>calls := calls this @ [ConsoleError TypeError]\<rparr>
                | Some st \<Rightarrow>
                    if addIce_ok pf \<or> ignoreOffer this then
                      this\<lparr>calls := calls this @ [AddIceCandidate c]\<rparr>
                    else this\<lparr>calls := calls this @ [AddIceCandidate c, ConsoleError OperationError]\<rparr>)
           | None \<Rightarrow> this))"

text \<open>
  The handler of \<open>negotiationneeded\<close>, run to completion: \<open>_makingOffer\<close> is set, the
  local offer is made and sent, and the \<open>finally\<close> block clears the flag.
\<close>

definition handleNegotiationNeeded :: "platform \<Rightarrow> peer \<Rightarrow> peer" where
  "handleNegotiationNeeded pf this =
     (let this1 = this\<lparr>makingOffer := True\<rparr>;
          this2 = (case connection this of
                     None \<Rightarrow> this1\<lparr>calls := calls this1 @ [ConsoleError TypeError]\<rparr>
                   | Some st \<Rightarrow>
                       if setLocal_ok pf then
                         this1\<lparr>calls := calls this1 @ [SetLocalDescription, SendOutOfBand]\<rparr>
                       else this1\<lparr>calls := calls this1 @ [SetLocalDescription, ConsoleError OperationError]\<rparr>)
      in this2\<lparr>makingOffer := False\<rparr>)"

text \<open>
  The constructor. \<open>localId > remoteId\<close> compares two strings code unit by code unit;
  on the ASCII identifiers of the protocol this is the lexicographic order of character
  lists. A fresh \<open>RTCPeerConnection\<close> is in the signaling state \<open>'stable'\<close>.
  \<open>setConnection\<close> starts a negotiation when an initial description came with the
  request, and otherwise creates the data channel, which starts in \<open>'connecting'\<close>.
\<close>

definition PeerConnection :: "platform \<Rightarrow> string \<Rightarrow> string \<Rightarrow> description option \<Rightarrow> peer" where
  "PeerConnection pf lid rid descr =
     (let this = \<lparr>localId = lid, remoteId = rid, ignoreOffer = False, makingOffer = False,
                   polite = (lid > rid), connection = Some Stable, channel = None,
                   sent = [], calls = []\<rparr>
      in case descr of
           Some d \<Rightarrow> negotiate pf None (Some d) this
         | None \<Rightarrow> this\<lparr>channel := Some CHANNEL_CONNECTING\<rparr>)"

text \<open>
  \<open>PeerConnection.send\<close>: \<open>this.channel.send(msgString)\<close>, with no check of the channel.
\<close>

definition peer_send :: "string \<Rightarrow> peer \<Rightarrow> error + peer" where
  "peer_send msg this =
     (case channel this of
        None \<Rightarrow> Inl TypeError
      | Some st \<Rightarrow>
          if st = CHANNEL_OPEN then Inr (this\<lparr>sent := sent this @ [msg]\<rparr>)
          else Inl InvalidStateError)"

text \<open>
  \<open>Array.prototype.forEach\<close> over the links with a callback that may throw: the links
  before the throwing one keep their updates, the throwing one and those after it are
  not visited, and the error leaves the loop.
\<close>

fun forEach :: "(peer \<Rightarrow> error + peer) \<Rightarrow> peer list \<Rightarrow> error option \<times> peer list" where
  "forEach f [] = (None, [])"
| "forEach f (p # ps) =
     (case f p of
        Inl e \<Rightarrow> (Some e, p # ps)
      | Inr p' \<Rightarrow> (case forEach f ps of (r, ps') \<Rightarrow> (r, p' # ps')))"

text \<open>The fields of a \<open>PeerGroup\<close> that the claims speak of.\<close>

record peer_group =
  g_localId :: string
  peers :: "peer list"
  warnings :: "string list"

text \<open>\<open>PeerGroup.send\<close>: \<open>this.peers.forEach((peer) => peer.send(msgString))\<close>.\<close>

definition group_send :: "string \<Rightarrow> peer_group \<Rightarrow> error option \<times> peer_group" where
  "group_send msg this =
     (case forEach (peer_send msg) (peers this) of (r, ps) \<Rightarrow> (r, this\<lparr>peers := ps\<rparr>))"

text \<open>
  \<open>isValidId\<close>: the identifier is a string (\<open>None\<close>: any other value) that the regular
  expression \<open>/^[0-9a-f]{8}(?:-[0-9a-f]{4}){3}-[0-9a-f]{12}$/\<close> matches. \<open>hexes n s\<close>
  consumes \<open>n\<close> digits and returns the rest; \<open>dash\<close> consumes one hyphen.
\<close>

definition hexdigit :: "char \<Rightarrow> bool" where
  "hexdigit c = (c \<in> set ''0123456789abcdef'')"

definition hexes :: "nat \<Rightarrow> string \<Rightarrow> string option" where
  "hexes n s = (if n \<le> length s \<and> list_all hexdigit (take n s) then Some (drop n s) else None)"

definition dash :: "string \<Rightarrow> string option" where
  "dash s = (case s of [] \<Rightarrow> None | c # r \<Rightarrow> if c = CHR ''-'' then Some r else None)"

definition reUUIDv4 :: "string \<Rightarrow> bool" where
  "reUUIDv4 s =
     (Option.bind (hexes 8 s) (\<lambda>r1.
      Option.bind (dash r1) (\<lambda>r2. Option.bind (hexes 4 r2) (\<lambda>r3.
      Option.bind (dash r3) (\<lambda>r4. Option.bind (hexes 4 r4) (\<lambda>r5.
      Option.bind (dash r5) (\<lambda>r6. Option.bind (hexes 4 r6) (\<lambda>r7.
      Option.bind (dash r7) (\<lambda>r8. hexes 12 r8)))))))) = Some [])"

definition isValidId :: "string option \<Rightarrow> bool" where
  "isValidId ident = (case ident of None \<Rightarrow> False | Some s \<Rightarrow> reUUIDv4 s)"

text \<open>One element of a relay batch; an absent field is \<open>None\<close>.\<close>

record envelope =
  e_from :: "string option"
  e_to :: "string option"
  e_candidate :: "string option"
  e_description :: "description option"

text \<open>\<open>getPeer\<close>: \<open>this.peers.find(({ remoteId: id }) => id === remoteId)\<close>.\<close>

definition getPeer :: "peer_group \<Rightarrow> string \<Rightarrow> peer option" where
  "getPeer this rid = find (\<lambda>p. remoteId p = rid) (peers this)"

text \<open>
  \<open>addPeer\<close> opens with \<open>if (this.findPeer(remoteId))\<close>. Neither \<open>PeerGroup\<close> nor
  \<open>EventTarget\<close> defines \<open>findPeer\<close> (the lookup method of the class is \<open>getPeer\<close>):
  the property is \<open>undefined\<close>, and the call throws a \<open>TypeError\<close> before anything else
  runs. \<open>PeerGroup_findPeer\<close> is that entry of the method table; the rest of the body is
  kept as the source has it.
\<close>

definition PeerGroup_findPeer :: "(peer_group \<Rightarrow> string \<Rightarrow> peer option) option" where
  "PeerGroup_findPeer = None"

definition addPeer :: "platform \<Rightarrow> string \<Rightarrow> description option \<Rightarrow> peer_group \<Rightarrow> error + peer_group" where
  "addPeer pf rid descr this =
     (case PeerGroup_findPeer of
        None \<Rightarrow> Inl TypeError
      | Some findPeer \<Rightarrow>
          if findPeer this rid \<noteq> None then
            Inr (this\<lparr>warnings := warnings this @ [''Remote ID collision when adding peer:'']\<rparr>)
          else Inr (this\<lparr>peers := peers this @ [PeerConnection pf (g_localId this) rid descr]\<rparr>))"

text \<open>
  \<open>_handlePeer\<close>: an existing link negotiates, an unknown sender goes to \<open>addPeer\<close>.
  The link that \<open>getPeer\<close> finds is the first one with that remote id; it is updated in
  place in the list.
\<close>

fun update_first :: "('a \<Rightarrow> bool) \<Rightarrow> ('a \<Rightarrow> 'a) \<Rightarrow> 'a list \<Rightarrow> 'a list" where
  "update_first P f [] = []"
| "update_first P f (x # xs) = (if P x then f x # xs else x # update_first P f xs)"

definition handlePeer ::
  "platform \<Rightarrow> string \<Rightarrow> string option \<Rightarrow> description option \<Rightarrow> peer_group \<Rightarrow> error + peer_group" where
  "handlePeer pf rid candidate descr this =
     (case getPeer this rid of
        Some p \<Rightarrow>
          Inr (this\<lparr>peers := update_first (\<lambda>q. remoteId q = rid) (negotiate pf candidate descr)
                                   (peers this)\<rparr>)
      | None \<Rightarrow> addPeer pf rid descr this)"

text \<open>
  The closure \<open>handleMessage\<close> of \<open>_handleSocketMessage\<close>:
  \<open>if ((to ?? localId) === localId && isValidId(from)) this._handlePeer(from, ...)\<close>.
\<close>

definition handleMessage :: "platform \<Rightarrow> envelope \<Rightarrow> peer_group \<Rightarrow> error + peer_group" where
  "handleMessage pf m this =
     (if nullish (e_to m) (g_localId this) = g_localId this \<and> isValidId (e_from m) then
        handlePeer pf (the (e_from m)) (e_candidate m) (e_description m) this
      else Inr this)"

text \<open>
  \<open>_handleSocketMessage\<close> on a payload that parses to a batch: \<open>messages.forEach(handleMessage)\<close>.
  A throw of the callback ends the loop and leaves the handler.
\<close>

fun handleSocketMessage :: "platform \<Rightarrow> envelope list \<Rightarrow> peer_group \<Rightarrow> error option \<times> peer_group" where
  "handleSocketMessage pf [] this = (None, this)"
| "handleSocketMessage pf (m # ms) this =
     (case handleMessage pf m this of
        Inl e \<Rightarrow> (Some e, this)
      | Inr this' \<Rightarrow> handleSocketMessage pf ms this')"


section \<open>The branch structure (class DivergingGraph)\<close>

text \<open>
  A node is an application key or \<open>null\<close>, the key of the sentinel root: \<open>Some k\<close> and
  \<open>None\<close>. The keys are of any type \<open>'k\<close> on which the \<open>Map\<close> and \<open>===\<close> agree with
  equality (the test of the source uses the strings \<open>'A'\<close> to \<open>'G'\<close>). A key can be
  falsy (the empty string, the number zero): the operations that test a key take the
  conversion to a boolean of the key type as the argument \<open>toBoolean\<close>. The field
  \<open>_t\<close> of an info object is \<open>arrival\<close> here and the private counter \<open>#t\<close> is
  \<open>counter\<close>. The sentinel's info object has no field \<open>source\<close>; reading it gives
  \<open>undefined\<close>, which is falsy like \<open>null\<close> and is never equal to a key, so it is
  \<open>None\<close> here.
\<close>

type_synonym 'k node = "'k option"

record ('k, 'd) info =
  source :: "'k node"
  distance :: int
  arrival :: int
  data :: "'d option"

text \<open>
  A \<open>Map\<close> keeps its entries in insertion order: an association list, on which
  \<open>Map.set\<close> is \<open>AList.update\<close> (replace in place, or append), \<open>Map.get\<close> is
  \<open>map_of\<close> and \<open>Map.delete\<close> is \<open>AList.delete\<close>. A \<open>Set\<close> is a list without
  repetitions, in insertion order.
\<close>

type_synonym ('k, 'd) node_map = "('k node \<times> ('k, 'd) info) list"

record ('k, 'd) graph =
  nodeInfo :: "('k, 'd) node_map"
  heads :: "'k node list"
  furthestNode :: "'k node"
  counter :: int
  advances :: "'k node list"

text \<open>\<open>advances\<close> lists the nodes of the \<open>'advance'\<close> events dispatched so far.\<close>

text \<open>The truth value of a node: \<open>null\<close> is falsy, a key is what its type makes it.\<close>

definition truthy :: "('k \<Rightarrow> bool) \<Rightarrow> 'k node \<Rightarrow> bool" where
  "truthy toBoolean n = (case n of None \<Rightarrow> False | Some k \<Rightarrow> toBoolean k)"

text \<open>A string is falsy exactly when it is empty.\<close>

definition string_toBoolean :: "string \<Rightarrow> bool" where
  "string_toBoolean s = (s \<noteq> [])"

definition DivergingGraph :: "('k, 'd) graph" where
  "DivergingGraph =
     \<lparr>nodeInfo = [(None, \<lparr>source = None, distance = - 1, arrival = 0, data = None\<rparr>)],
      heads = [], furthestNode = None, counter = 1, advances = []\<rparr>"

definition has :: "('a \<times> 'b) list \<Rightarrow> 'a \<Rightarrow> bool" where
  "has m k = (map_of m k \<noteq> None)"

definition set_add :: "'a \<Rightarrow> 'a list \<Rightarrow> 'a list" where
  "set_add x xs = (if x \<in> set xs then xs else xs @ [x])"

text \<open>The getter \<open>size\<close>: the sentinel is not counted.\<close>

definition size_of :: "('k, 'd) graph \<Rightarrow> int" where
  "size_of g = int (length (nodeInfo g)) - 1"

text \<open>The setter of \<open>furthestNode\<close>: an event is dispatched only when the node changes.\<close>

definition set_furthestNode :: "'k node \<Rightarrow> ('k, 'd) graph \<Rightarrow> ('k, 'd) graph" where
  "set_furthestNode node g =
     (if node \<noteq> furthestNode g then g\<lparr>furthestNode := node, advances := advances g @ [node]\<rparr>
      else g)"

text \<open>
  The callback of both \<open>reduce\<close> calls,
  \<open>la > lb ? a : la < lb ? b : ta < tb ? a : b\<close>; destructuring the info of a node that
  the map does not hold throws.
\<close>

definition pick :: "('k, 'd) node_map \<Rightarrow> 'k node \<Rightarrow> 'k node \<Rightarrow> error + 'k node" where
  "pick ni a b =
     (case map_of ni a of
        None \<Rightarrow> Inl TypeError
      | Some ia \<Rightarrow>
          (case map_of ni b of
             None \<Rightarrow> Inl TypeError
           | Some ib \<Rightarrow>
               Inr (if distance ia > distance ib then a
                    else if distance ia < distance ib then b
                    else if arrival ia < arrival ib then a else b)))"

fun reduce :: "('k, 'd) node_map \<Rightarrow> 'k node list \<Rightarrow> 'k node \<Rightarrow> error + 'k node" where
  "reduce ni [] a = Inr a"
| "reduce ni (b # bs) a = (case pick ni a b of Inl e \<Rightarrow> Inl e | Inr c \<Rightarrow> reduce ni bs c)"

text \<open>
  The inner \<open>while\<close> loop of \<open>addEdge\<close> and of \<open>prune\<close>: from \<open>node\<close>, follow the
  sources until a node that the memo table holds, pushing the nodes passed onto
  \<open>path\<close>. It returns the memo's value for the node reached, and the path. The loop has
  no bound in the source, so the model counts its iterations down from \<open>fuel\<close>:
  \<open>None\<close> is a run that has not ended within \<open>fuel\<close> tests of the loop condition.
\<close>

fun walk ::
  "nat \<Rightarrow> ('k, 'd) node_map \<Rightarrow> ('k node \<times> 'v) list \<Rightarrow> 'k node \<Rightarrow> 'k node list
     \<Rightarrow> (error + 'v \<times> 'k node list) option" where
  "walk 0 ni memo node path = None"
| "walk (Suc n) ni memo node path =
     (case map_of memo node of
        Some v \<Rightarrow> Some (Inr (v, path))
      | None \<Rightarrow>
          (case map_of ni node of
             None \<Rightarrow> Some (Inl TypeError)
           | Some i \<Rightarrow> walk n ni memo (source i) (path @ [node])))"

text \<open>
  The \<open>for\<close> loop of the graft over the heads: each walk ends on a memoised node, whose
  value is then set for every node of the path.
\<close>

fun followHeads ::
  "nat \<Rightarrow> ('k, 'd) node_map \<Rightarrow> 'k node list \<Rightarrow> ('k node \<times> bool) list
     \<Rightarrow> (error + ('k node \<times> bool) list) option" where
  "followHeads fuel ni [] followsTarget = Some (Inr followsTarget)"
| "followHeads fuel ni (h # hs) followsTarget =
     (case walk fuel ni followsTarget h [] of
        None \<Rightarrow> None
      | Some (Inl e) \<Rightarrow> Some (Inl e)
      | Some (Inr (v, path)) \<Rightarrow>
          followHeads fuel ni hs (fold (\<lambda>n m. AList.update n v m) path followsTarget))"

text \<open>
  \<open>updatedNodes.forEach\<close>: each node's distance grows by \<open>targetDistance\<close>. The map is
  updated in place, so the entries written before a throw stay written.
\<close>

fun raiseAll :: "int \<Rightarrow> 'k node list \<Rightarrow> ('k, 'd) node_map \<Rightarrow> error option \<times> ('k, 'd) node_map" where
  "raiseAll td [] ni = (None, ni)"
| "raiseAll td (n # ns) ni =
     (case map_of ni n of
        None \<Rightarrow> (Some TypeError, ni)
      | Some i \<Rightarrow> raiseAll td ns (AList.update n (i\<lparr>distance := distance i + td\<rparr>) ni))"

text \<open>
  The first \<open>if\<close> of \<open>addEdge\<close>: a known source leaves the heads, an unknown one
  starts a new path. This runs before the target is looked at.
\<close>

definition startPath :: "'k node \<Rightarrow> ('k, 'd) graph \<Rightarrow> ('k, 'd) graph" where
  "startPath src g =
     (if has (nodeInfo g) src then g\<lparr>heads := removeAll src (heads g)\<rparr>
      else g\<lparr>nodeInfo := AList.update src
                 \<lparr>source = None, distance = 0, arrival = counter g, data = None\<rparr> (nodeInfo g),
             counter := counter g + 1\<rparr>)"

text \<open>
  The branch of \<open>addEdge\<close> for a target that is an eligible path start. \<open>f\<close> is the
  furthest node read on entry of \<open>addEdge\<close>, \<open>td\<close> is \<open>targetDistance\<close>. The table
  \<open>followsTarget\<close> starts as \<open>new Map([[target, true], [null, false]])\<close>.
\<close>

definition graft ::
  "nat \<Rightarrow> 'k node \<Rightarrow> 'k node \<Rightarrow> 'd option \<Rightarrow> int \<Rightarrow> 'k node \<Rightarrow> ('k, 'd) graph
     \<Rightarrow> (error option \<times> ('k, 'd) graph) option" where
  "graft fuel src tgt dat td f g =
     (case followHeads fuel (nodeInfo g) (heads g) (AList.update None False [(tgt, True)]) of
        None \<Rightarrow> None
      | Some (Inl e) \<Rightarrow> Some (Some e, g)
      | Some (Inr followsTarget) \<Rightarrow>
          (let updatedNodes = map fst (filter snd followsTarget) in
           case raiseAll td updatedNodes (nodeInfo g) of
             (Some e, ni) \<Rightarrow> Some (Some e, g\<lparr>nodeInfo := ni\<rparr>)
           | (None, ni) \<Rightarrow>
               (case reduce ni updatedNodes f of
                  Inl e \<Rightarrow> Some (Some e, g\<lparr>nodeInfo := ni\<rparr>)
                | Inr node \<Rightarrow>
                    (let g1 = set_furthestNode node (g\<lparr>nodeInfo := ni\<rparr>) in
                     case map_of ni tgt of
                       None \<Rightarrow> Some (Some TypeError, g1)
                     | Some i \<Rightarrow>
                         Some (None, g1\<lparr>nodeInfo := AList.update tgt (i\<lparr>source := src, data := dat\<rparr>) ni\<rparr>)))))"

text \<open>The branch of \<open>addEdge\<close> for a target that the map does not hold.\<close>

definition append ::
  "'k node \<Rightarrow> 'k node \<Rightarrow> 'd option \<Rightarrow> int \<Rightarrow> 'k node \<Rightarrow> ('k, 'd) graph \<Rightarrow> error option \<times> ('k, 'd) graph" where
  "append src tgt dat td f g =
     (let g1 = g\<lparr>nodeInfo := AList.update tgt
                     \<lparr>source = src, distance = td, arrival = counter g, data = dat\<rparr> (nodeInfo g),
                 counter := counter g + 1,
                 heads := set_add tgt (heads g)\<rparr>
      in case map_of (nodeInfo g1) f of
           None \<Rightarrow> (Some TypeError, g1)
         | Some fi \<Rightarrow> (None, if td > distance fi then set_furthestNode tgt g1 else g1))"

text \<open>
  \<open>addEdge(source, target, data)\<close>. The result is \<open>None\<close> when a loop has not ended
  within the fuel, and else the error thrown, if any, with the graph as the call leaves
  it. The test of the target is
  \<open>currentTargetInfo.source || currentTargetInfo.distance !== 0\<close>: a source that is a
  falsy key passes it like \<open>null\<close>.
\<close>

definition addEdge ::
  "('k \<Rightarrow> bool) \<Rightarrow> nat \<Rightarrow> 'k node \<Rightarrow> 'k node \<Rightarrow> 'd option \<Rightarrow> ('k, 'd) graph
     \<Rightarrow> (error option \<times> ('k, 'd) graph) option" where
  "addEdge toBoolean fuel src tgt dat g =
     (let f = furthestNode g;
          g1 = startPath src g
      in case map_of (nodeInfo g1) src of
           None \<Rightarrow> Some (Some TypeError, g1)
         | Some si \<Rightarrow>
             (let targetDistance = distance si + 1 in
              case map_of (nodeInfo g1) tgt of
                Some currentTargetInfo \<Rightarrow>
                  if truthy toBoolean (source currentTargetInfo) \<or> distance currentTargetInfo \<noteq> 0
                  then Some (Some ProtocolViolation, g1)
                  else graft fuel src tgt dat targetDistance f g1
              | None \<Rightarrow> Some (append src tgt dat targetDistance f g1)))"

text \<open>
  The callback of \<open>nodeInfo.forEach\<close> in \<open>removeNode\<close>:
  \<open>if (info.source === target) info.source = null\<close>.
\<close>

definition orphan :: "'k node \<Rightarrow> ('k, 'd) info \<Rightarrow> ('k, 'd) info" where
  "orphan tgt i = (if source i = tgt then i\<lparr>source := None\<rparr> else i)"

text \<open>
  \<open>removeNode(target)\<close>. \<open>nodeInfo.get(target)?.source ?? null\<close> is the source of the
  node, or \<open>null\<close> when the map does not hold it. The heads are not touched.
\<close>

definition removeNode :: "'k node \<Rightarrow> ('k, 'd) graph \<Rightarrow> error option \<times> ('k, 'd) graph" where
  "removeNode tgt g =
     (let src = (case map_of (nodeInfo g) tgt of None \<Rightarrow> None | Some i \<Rightarrow> source i);
          ni = map (\<lambda>(k, i). (k, orphan tgt i)) (AList.delete tgt (nodeInfo g));
          g1 = g\<lparr>nodeInfo := ni\<rparr>
      in if tgt = furthestNode g then
           (case reduce ni (map fst ni) src of
              Inl e \<Rightarrow> (Some e, g1)
            | Inr node \<Rightarrow> (None, set_furthestNode node g1))
         else (None, g1))"

text \<open>
  The scores of \<open>prune\<close>: the path is scored from its oldest node to the head,
  \<open>score = Math.max(score - (distance - 1), _t) + distance\<close>.
\<close>

fun scorePath ::
  "('k, 'd) node_map \<Rightarrow> 'k node list \<Rightarrow> int \<Rightarrow> ('k node \<times> int) list \<Rightarrow> error + ('k node \<times> int) list" where
  "scorePath ni [] score scores = Inr scores"
| "scorePath ni (n # ns) score scores =
     (case map_of ni n of
        None \<Rightarrow> Inl TypeError
      | Some i \<Rightarrow>
          (let score' = max (score - (distance i - 1)) (arrival i) + distance i
           in scorePath ni ns score' (AList.update n score' scores)))"

fun scoreHeads ::
  "nat \<Rightarrow> ('k, 'd) node_map \<Rightarrow> 'k node list \<Rightarrow> ('k node \<times> int) list
     \<Rightarrow> (error + ('k node \<times> int) list) option" where
  "scoreHeads fuel ni [] scores = Some (Inr scores)"
| "scoreHeads fuel ni (h # hs) scores =
     (case walk fuel ni scores h [] of
        None \<Rightarrow> None
      | Some (Inl e) \<Rightarrow> Some (Inl e)
      | Some (Inr (score, path)) \<Rightarrow>
          (case scorePath ni (rev path) score scores of
             Inl e \<Rightarrow> Some (Inl e)
           | Inr scores' \<Rightarrow> scoreHeads fuel ni hs scores'))"

text \<open>
  \<open>Array.prototype.toSpliced(start, skipCount)\<close> for a start and a count that are not
  negative: both are clamped to the length of the array.
\<close>

definition toSpliced :: "nat \<Rightarrow> nat \<Rightarrow> 'a list \<Rightarrow> 'a list" where
  "toSpliced start skipCount xs = take start xs @ drop (start + skipCount) xs"

text \<open>
  \<open>prune(maxSize)\<close>. The method binds \<open>const nodeInfo = new Map(this.nodeInfo)\<close> and,
  when \<open>maxSize < size\<close>, runs
  \<open>nodeInfo = this.nodeInfo = new Map(sorted.toSpliced(1, size - maxSize))\<close>: the inner
  assignment stores the trimmed map in the graph, and the outer one, to the \<open>const\<close>
  binding, throws a \<open>TypeError\<close>. The loop after it, which would clear the sources that
  point to removed nodes, is never reached. \<open>sort\<close> is stable, as \<open>sort_key\<close> is.
\<close>

definition prune :: "nat \<Rightarrow> int \<Rightarrow> ('k, 'd) graph \<Rightarrow> (error option \<times> ('k, 'd) graph) option" where
  "prune fuel maxSize g =
     (case map_of (nodeInfo g) None of
        None \<Rightarrow> Some (Some TypeError, g)
      | Some s \<Rightarrow>
          (case scoreHeads fuel (nodeInfo g) (heads g) [(None, distance s + arrival s)] of
             None \<Rightarrow> None
           | Some (Inl e) \<Rightarrow> Some (Some e, g)
           | Some (Inr scores) \<Rightarrow>
               if maxSize < size_of g then
                 Some (Some TypeError,
                       g\<lparr>nodeInfo := toSpliced 1 (nat (size_of g - maxSize))
                                        (sort_key (\<lambda>(k, i). arrival i) (nodeInfo g))\<rparr>)
               else Some (None, g)))"

section \<open>Example inputs\<close>

text \<open>A platform on which every promise resolves, and an offer.\<close>

definition pf_ok :: platform where
  "pf_ok = \<lparr>setRemote_ok = True, setLocal_ok = True, addIce_ok = True\<rparr>"

definition offer1 :: description where
  "offer1 = \<lparr>d_type = ''offer'', sdp = ''v=0''\<rparr>"

text \<open>
  Two links in an offer collision: the one with the lower local id is in the middle of
  making its own offer, the one with the higher local id has sent its offer already.
\<close>

definition impolite_link :: peer where
  "impolite_link = (PeerConnection pf_ok ''aaa'' ''zzz'' None)\<lparr>makingOffer := True\<rparr>"

definition polite_link :: peer where
  "polite_link = (PeerConnection pf_ok ''zzz'' ''aaa'' None)\<lparr>connection := Some HaveLocalOffer\<rparr>"

text \<open>
  A group of two links: the first was just created, so its channel is still connecting;
  the channel of the second is open.
\<close>

definition open_link :: peer where
  "open_link = (PeerConnection pf_ok ''zzz'' ''bbb'' None)\<lparr>channel := Some CHANNEL_OPEN\<rparr>"

definition example_group :: peer_group where
  "example_group = \<lparr>g_localId = ''zzz'',
      peers = [PeerConnection pf_ok ''zzz'' ''aaa'' None, open_link], warnings = []\<rparr>"

text \<open>A group without links and a broadcast envelope from a well-formed sender.\<close>

definition uuid_a :: string where
  "uuid_a = ''0123abcd-0123-4567-89ab-0123456789ab''"

definition uuid_b :: string where
  "uuid_b = ''ffffffff-0123-4567-89ab-0123456789ab''"

definition hello :: envelope where
  "hello = \<lparr>e_from = Some uuid_a, e_to = None, e_candidate = None, e_description = None\<rparr>"

definition empty_group :: peer_group where
  "empty_group = \<lparr>g_localId = uuid_b, peers = [], warnings = []\<rparr>"

text \<open>A fresh local state, as \<open>new NextState()\<close> builds it with a draw of one half.\<close>

definition fresh_state :: next_state where
  "fresh_state = \<lparr>state = Str [], time = 0, lottery = 1 / 2\<rparr>"

text \<open>
  A local state at the time \<open>2^53 + 2\<close> and a proposal from its state at the time
  \<open>2^53 + 4\<close>, two steps ahead; both times are doubles.
\<close>

definition late_state :: next_state where
  "late_state = \<lparr>state = Str ''s'', time = 9007199254740994, lottery = 1 / 2\<rparr>"

definition late_proposal :: proposal where
  "late_proposal =
     \<lparr>p_next = Str ''n'', p_state = Str ''s'', p_time = 9007199254740996, p_lottery = 1 / 4\<rparr>"

text \<open>The graph after \<open>addEdge('A', 'B')\<close> on a new \<open>DivergingGraph\<close>.\<close>

definition graph_AB :: "(string, string) graph" where
  "graph_AB =
     \<lparr>nodeInfo = [(None, \<lparr>source = None, distance = - 1, arrival = 0, data = None\<rparr>),
                  (Some ''A'', \<lparr>source = None, distance = 0, arrival = 1, data = None\<rparr>),
                  (Some ''B'', \<lparr>source = Some ''A'', distance = 1, arrival = 2, data = None\<rparr>)],
      heads = [Some ''B''], furthestNode = Some ''B'', counter = 3, advances = [Some ''B'']\<rparr>"






text \<open>
  A graph state in which the node \<open>T\<close> has the distance 0 and the empty string, a falsy
  key, as its source.
\<close>

definition graph_falsy :: "(string, string) graph" where
  "graph_falsy =
     \<lparr>nodeInfo = [(None, \<lparr>source = None, distance = - 1, arrival = 0, data = None\<rparr>),
                  (Some [], \<lparr>source = None, distance = 0, arrival = 1, data = None\<rparr>),
                  (Some ''T'', \<lparr>source = Some [], distance = 0, arrival = 2, data = None\<rparr>)],
      heads = [Some ''T''], furthestNode = Some [], counter = 3, advances = [Some []]\<rparr>"

section \<open>Predicates of the specification\<close>












text \<open>
  A graph on which the walks of \<open>prune\<close> end: the sentinel and every head are in the
  map, and every node with a key has a distance that is not negative and a source that
  is \<open>null\<close> or a node of the map at a smaller distance. \<open>rank\<close> bounds the length of the
  walk from a node, and \<open>enough\<close> is fuel for any walk of the map.
\<close>

definition chained :: "('k, 'd) graph \<Rightarrow> bool" where
  "chained g =
     (has (nodeInfo g) None \<and>
      (\<forall>h \<in> set (heads g). has (nodeInfo g) h) \<and>
      (\<forall>(k, i) \<in> set (nodeInfo g). k \<noteq> None \<longrightarrow>
         0 \<le> distance i \<and>
         (source i = None \<or>
          (\<exists>j. map_of (nodeInfo g) (source i) = Some j \<and> distance j < distance i))))"

definition rank :: "('k, 'd) node_map \<Rightarrow> 'k node \<Rightarrow> nat" where
  "rank ni node =
     (case node of None \<Rightarrow> 0
      | Some k \<Rightarrow> (case map_of ni node of None \<Rightarrow> 0 | Some i \<Rightarrow> nat (distance i) + 1))"

definition enough :: "('k, 'd) node_map \<Rightarrow> nat" where
  "enough ni = Suc (sum_list (map (\<lambda>(k, i). nat (distance i) + 1) ni))"

section \<open>Properties of the proposal evaluation\<close>

lemma spacing_small: "\<bar>n\<bar> < 9007199254740992 \<Longrightarrow> spacing n = 1"
  by (subst spacing.simps) simp

lemma spacing_2_53: "spacing 9007199254740992 = 2"
  by (subst spacing.simps) (simp add: spacing_small)

lemma plus1_safe: "\<bar>t\<bar> < 9007199254740992 \<Longrightarrow> plus1 t = t + 1"
proof -
  assume a: "\<bar>t\<bar> < 9007199254740992"
  show ?thesis
  proof (cases "t + 1 = 9007199254740992")
    case True
    then show ?thesis by (simp add: plus1_def toDouble_def spacing_2_53)
  next
    case False
    with a have "\<bar>t + 1\<bar> < 9007199254740992" by simp
    then show ?thesis by (simp add: plus1_def toDouble_def spacing_small)
  qed
qed

lemma plus1_late: "plus1 9007199254740994 = 9007199254740996"
proof -
  have "spacing 9007199254740995 = 2"
    by (subst spacing.simps) (simp add: spacing_small)
  then show ?thesis by (simp add: plus1_def toDouble_def)
qed

text \<open>
  Claim C1 as stated (every local state) fails where \<open>time + 1\<close> is no longer exact: at
  the local time \<open>2^53 + 2\<close> the sum \<open>this.time + 1\<close> rounds to \<open>2^53 + 4\<close>, so a
  proposal at the time \<open>2^53 + 4\<close>, two steps ahead, is not greater than it and is
  classified \<open>ADVANCE\<close>, not \<open>FAST_FORWARD\<close>.
\<close>

theorem evaluate_table_counterexample:
  "time late_state + 1 < p_time late_proposal \<and>
   evaluate late_state late_proposal = \<lparr>accept = True, code = ADVANCE\<rparr>"
  by (simp add: evaluate_def late_state_def late_proposal_def plus1_late strict_eq_def)

text \<open>
  Claim C1, amended. For a local state whose time is a safe integer (of absolute value
  below \<open>2^53\<close>), a proposal more than one step ahead gives \<open>FAST_FORWARD\<close> and is
  accepted. For every local state: at equal time, a proposal whose \<open>next\<close> is strictly
  equal to the local state gives \<open>CONFIRM\<close> and is not accepted, whatever the lottery
  values, and any other proposal is accepted exactly when its lottery is strictly
  greater than the local one (\<open>LOTTERY_LOST\<close>, else \<open>ROCK\<close>); a proposal with a smaller
  time gives \<open>ONE_DIRECTION\<close> and is not accepted.
\<close>

theorem evaluate_table:
  "(\<bar>time S\<bar> < 9007199254740992 \<and> time S + 1 < p_time p \<longrightarrow>
      evaluate S p = \<lparr>accept = True, code = FAST_FORWARD\<rparr>) \<and>
   (p_time p = time S \<and> strict_eq (p_next p) (state S) \<longrightarrow>
      evaluate S p = \<lparr>accept = False, code = CONFIRM\<rparr>) \<and>
   (p_time p = time S \<and> \<not> strict_eq (p_next p) (state S) \<longrightarrow>
      accept (evaluate S p) = (lottery S < p_lottery p) \<and>
      code (evaluate S p) = (if lottery S < p_lottery p then LOTTERY_LOST else ROCK)) \<and>
   (p_time p < time S \<longrightarrow> evaluate S p = \<lparr>accept = False, code = ONE_DIRECTION\<rparr>)"
  by (simp add: evaluate_def plus1_safe)

theorem evaluate_table_witness:
  "evaluate fresh_state \<lparr>p_next = Str ''x'', p_state = Str [], p_time = 2, p_lottery = 0\<rparr>
     = \<lparr>accept = True, code = FAST_FORWARD\<rparr> \<and>
   evaluate fresh_state \<lparr>p_next = Str [], p_state = Str ''y'', p_time = 0, p_lottery = 1\<rparr>
     = \<lparr>accept = False, code = CONFIRM\<rparr> \<and>
   evaluate fresh_state \<lparr>p_next = Str ''x'', p_state = Str [], p_time = 0, p_lottery = 3 / 4\<rparr>
     = \<lparr>accept = True, code = LOTTERY_LOST\<rparr> \<and>
   evaluate fresh_state \<lparr>p_next = Str ''x'', p_state = Str [], p_time = 0, p_lottery = 1 / 2\<rparr>
     = \<lparr>accept = False, code = ROCK\<rparr> \<and>
   evaluate fresh_state \<lparr>p_next = Str ''x'', p_state = Str [], p_time = - 1, p_lottery = 1\<rparr>
     = \<lparr>accept = False, code = ONE_DIRECTION\<rparr>"
proof -
  note t = evaluate_table [where S = fresh_state]
  have 1: "evaluate fresh_state \<lparr>p_next = Str ''x'', p_state = Str [], p_time = 2, p_lottery = 0\<rparr>
     = \<lparr>accept = True, code = FAST_FORWARD\<rparr>"
    using t [where p = "\<lparr>p_next = Str ''x'', p_state = Str [], p_time = 2, p_lottery = 0\<rparr>"]
    by (simp add: fresh_state_def)
  have 2: "evaluate fresh_state \<lparr>p_next = Str [], p_state = Str ''y'', p_time = 0, p_lottery = 1\<rparr>
     = \<lparr>accept = False, code = CONFIRM\<rparr>"
    using t [where p = "\<lparr>p_next = Str [], p_state = Str ''y'', p_time = 0, p_lottery = 1\<rparr>"]
    by (simp add: fresh_state_def strict_eq_def)
  have 3: "evaluate fresh_state \<lparr>p_next = Str ''x'', p_state = Str [], p_time = 0, p_lottery = 3 / 4\<rparr>
     = \<lparr>accept = True, code = LOTTERY_LOST\<rparr>"
    using t [where p = "\<lparr>p_next = Str ''x'', p_state = Str [], p_time = 0, p_lottery = 3 / 4\<rparr>"]
    by (cases "evaluate fresh_state \<lparr>p_next = Str ''x'', p_state = Str [], p_time = 0, p_lottery = 3 / 4\<rparr>")
       (simp add: fresh_state_def strict_eq_def)
  have 4: "evaluate fresh_state \<lparr>p_next = Str ''x'', p_state = Str [], p_time = 0, p_lottery = 1 / 2\<rparr>
     = \<lparr>accept = False, code = ROCK\<rparr>"
    using t [where p = "\<lparr>p_next = Str ''x'', p_state = Str [], p_time = 0, p_lottery = 1 / 2\<rparr>"]
    by (cases "evaluate fresh_state \<lparr>p_next = Str ''x'', p_state = Str [], p_time = 0, p_lottery = 1 / 2\<rparr>")
       (simp add: fresh_state_def strict_eq_def)
  have 5: "evaluate fresh_state \<lparr>p_next = Str ''x'', p_state = Str [], p_time = - 1, p_lottery = 1\<rparr>
     = \<lparr>accept = False, code = ONE_DIRECTION\<rparr>"
    using t [where p = "\<lparr>p_next = Str ''x'', p_state = Str [], p_time = - 1, p_lottery = 1\<rparr>"]
    by (simp add: fresh_state_def)
  show ?thesis using 1 2 3 4 5 by simp
qed

text \<open>
  Claim C9, as stated for every value \<open>X\<close>, fails for \<open>undefined\<close> and for \<open>NaN\<close>.
  For \<open>undefined\<close> the constructor stores \<open>''\<close> in its place while the echoed proposal
  still carries \<open>undefined\<close>; \<open>NaN\<close> is stored but is not strictly equal to itself. In
  both cases the evaluation falls through to the lottery, which the proposal cannot
  win against itself.
\<close>

theorem echo_confirm_counterexample:
  "evaluate (advance fresh_state (propose fresh_state Undefined (1 / 4)))
            (propose fresh_state Undefined (1 / 4))
     = \<lparr>accept = False, code = ROCK\<rparr> \<and>
   evaluate (advance fresh_state (propose fresh_state NaN (1 / 4)))
            (propose fresh_state NaN (1 / 4))
     = \<lparr>accept = False, code = ROCK\<rparr>"
  by (simp add: evaluate_def advance_def propose_def nullish_val_def strict_eq_def)

text \<open>
  Claim C9, amended. For every local state \<open>S\<close>, every value \<open>X\<close> and every lottery
  draw, the state reached by advancing into the own proposal \<open>S.propose(X)\<close> does not
  accept that same proposal echoed back unchanged; the code is \<open>CONFIRM\<close> for every
  \<open>X\<close> other than \<open>undefined\<close>, \<open>null\<close> and \<open>NaN\<close>, and \<open>ROCK\<close> for these three.
\<close>

theorem echo_confirm:
  "evaluate (advance S (propose S X rnd)) (propose S X rnd)
     = \<lparr>accept = False,
        code = (if X = Undefined \<or> X = Null \<or> X = NaN then ROCK else CONFIRM)\<rparr>"
  by (simp add: evaluate_def advance_def propose_def nullish_val_def strict_eq_def)

section \<open>Properties of the peer mesh\<close>

text \<open>
  Claim C5 asks that a send failure on a link whose channel is not yet open be swallowed
  and the broadcast go on, as the header comment of the class says (\<open>just ignore the
  error and skip sending the message to that peer\<close>). \<open>PeerGroup.send\<close> has no
  \<open>try\<close>: on the example group the error of the first link leaves the call, and the
  second link, whose channel is open, is never written to.
\<close>

theorem group_send_throws:
  "group_send ''hi'' example_group = (Some InvalidStateError, example_group) \<and>
   channel open_link = Some CHANNEL_OPEN \<and> sent open_link = []"
  by (simp add: group_send_def example_group_def open_link_def PeerConnection_def peer_send_def)

text \<open>
  Claim C6 asks that an envelope from an unknown, well-formed sender create a link. It
  passes the filter and reaches \<open>addPeer\<close>, whose call of the undefined method
  \<open>findPeer\<close> throws: no link is created, and the error leaves the handler.
\<close>

theorem unknown_sender_throws:
  "isValidId (e_from hello) \<and> getPeer empty_group uuid_a = None \<and>
   handleSocketMessage pf_ok [hello] empty_group = (Some TypeError, empty_group)"
  by (simp add: hello_def empty_group_def uuid_a_def uuid_b_def isValidId_def reUUIDv4_def hexes_def
      dash_def hexdigit_def getPeer_def handleMessage_def handlePeer_def addPeer_def
      PeerGroup_findPeer_def nullish_def)

lemma polite_negotiate: "polite (negotiate pf c dd p) = polite p"
  by (simp add: negotiate_def Let_def split: option.splits sum.splits)

text \<open>
  Claim C7. A link is polite exactly when its local id compares greater than its remote
  id, so of two links between distinct ids exactly one is polite; neither \<open>negotiate\<close>
  nor the handler of \<open>negotiationneeded\<close> changes the flag. In an offer collision (an
  offer arrives while the link is making its own offer, or while its connection is not
  stable) the impolite link sets its ignore flag and does nothing else; the polite link
  clears the flag and applies the remote description, and when the platform accepts it
  and produces the local description, the link answers.
\<close>

theorem politeness:
  "polite (PeerConnection pf l r dd) = (r < l) \<and>
   (l \<noteq> r \<longrightarrow> polite (PeerConnection pf l r dd) = (\<not> polite (PeerConnection pf' r l dd'))) \<and>
   polite (negotiate pf c dd p) = polite p \<and>
   polite (handleNegotiationNeeded pf p) = polite p \<and>
   (d_type d = ''offer'' \<and> (makingOffer p \<or> (\<exists>st. connection p = Some st \<and> st \<noteq> Stable)) \<longrightarrow>
      (\<not> polite p \<longrightarrow> negotiate pf c (Some d) p = p\<lparr>ignoreOffer := True\<rparr>) \<and>
      (polite p \<and> connection p \<noteq> None \<longrightarrow>
         ignoreOffer (negotiate pf c (Some d) p) = False \<and>
         take 1 (drop (length (calls p)) (calls (negotiate pf c (Some d) p))) = [SetRemoteDescription d] \<and>
         (setRemote_ok pf \<and> setLocal_ok pf \<longrightarrow>
            negotiate pf c (Some d) p =
              p\<lparr>ignoreOffer := False,
                calls := calls p @ [SetRemoteDescription d, SetLocalDescription, SendOutOfBand]\<rparr>)))"
proof -
  have a: "polite (PeerConnection pf l r dd) = (r < l)" for pf dd and l r :: string
    by (simp add: PeerConnection_def Let_def polite_negotiate split: option.splits)
  have b: "l \<noteq> r \<Longrightarrow> (r < l) = (\<not> l < r)" by auto
  have c: "polite (handleNegotiationNeeded pf p) = polite p"
    by (simp add: handleNegotiationNeeded_def Let_def split: option.splits)
  have d: "d_type d = ''offer'' \<Longrightarrow> makingOffer p \<or> (\<exists>st. connection p = Some st \<and> st \<noteq> Stable)
           \<Longrightarrow> offerCollision p d = Inr True"
    by (auto simp: offerCollision_def)
  show ?thesis
    using a b c d polite_negotiate
    by (auto simp: negotiate_def Let_def)
qed

theorem politeness_witness:
  "\<not> polite impolite_link \<and> polite polite_link \<and>
   negotiate pf_ok None (Some offer1) impolite_link = impolite_link\<lparr>ignoreOffer := True\<rparr> \<and>
   negotiate pf_ok None (Some offer1) polite_link =
     polite_link\<lparr>ignoreOffer := False,
        calls := calls polite_link @ [SetRemoteDescription offer1, SetLocalDescription, SendOutOfBand]\<rparr>"
proof -
  have 1: "\<not> polite impolite_link" "makingOffer impolite_link"
    by (simp_all add: impolite_link_def PeerConnection_def)
  have 2: "polite polite_link" "connection polite_link = Some HaveLocalOffer"
    by (simp_all add: polite_link_def PeerConnection_def)
  have 3: "d_type offer1 = ''offer''" "setRemote_ok pf_ok" "setLocal_ok pf_ok"
    by (simp_all add: offer1_def pf_ok_def)
  show ?thesis
    using 1 2 3
      politeness [where p = impolite_link and d = offer1 and pf = pf_ok and c = None]
      politeness [where p = polite_link and d = offer1 and pf = pf_ok and c = None]
    by simp
qed

section \<open>Properties of the branch structure\<close>



lemma upd_new: "map_of ni k = None \<Longrightarrow> AList.update k v ni = ni @ [(k, v)]"
  by (induction ni) (auto split: if_splits)




lemma has_update: "has ni k' \<Longrightarrow> has (AList.update k v ni) k'"
  by (simp add: has_def update_conv')





























lemma orphan_rank [simp]: "distance (orphan t i) = distance i" "arrival (orphan t i) = arrival i"
  by (simp_all add: orphan_def)
























lemma removeNode_frame:
  "removeNode t g = (None, g') \<Longrightarrow> heads g' = heads g \<and> counter g' = counter g"
  by (auto simp: removeNode_def Let_def set_furthestNode_def split: if_splits sum.splits)







lemma graph_AB_built: "addEdge string_toBoolean 0 (Some ''A'') (Some ''B'') None DivergingGraph = Some (None, graph_AB)"
  by (simp add: addEdge_def startPath_def has_def DivergingGraph_def append_def set_add_def
      set_furthestNode_def graph_AB_def Let_def)

text \<open>
  The eligibility test of \<open>addEdge\<close> reads the source of the target by its truthiness:
  a target of distance 0 whose source is the empty string passes it, and is grafted.
\<close>

lemma addEdge_falsy_source:
  "addEdge string_toBoolean 1 (Some ''S'') (Some ''T'') None graph_falsy =
     Some (None,
       \<lparr>nodeInfo = [(None, \<lparr>source = None, distance = - 1, arrival = 0, data = None\<rparr>),
                    (Some [], \<lparr>source = None, distance = 0, arrival = 1, data = None\<rparr>),
                    (Some ''T'', \<lparr>source = Some ''S'', distance = 1, arrival = 2, data = None\<rparr>),
                    (Some ''S'', \<lparr>source = None, distance = 0, arrival = 3, data = None\<rparr>)],
        heads = [Some ''T''], furthestNode = Some ''T'', counter = 4,
        advances = [Some [], Some ''T'']\<rparr>)"
  by code_simp

text \<open>
  Claim C2, amended. When the target is known and has a truthy source or a distance
  other than zero, \<open>addEdge\<close> throws the protocol violation. The furthest node is unchanged,
  no event is dispatched, and every node known before the call keeps its info. The graph
  is left as the first step of the method has made it: a known source has been taken out
  of the heads; an unknown source has been appended to the map as a new path start, and
  has taken one value of the arrival counter.
\<close>

theorem addEdge_join_rejected:
  assumes "map_of (nodeInfo g) tgt = Some ti" and "truthy tb (source ti) \<or> distance ti \<noteq> 0"
  shows "addEdge tb fuel src tgt dat g = Some (Some ProtocolViolation, startPath src g) \<and>
         furthestNode (startPath src g) = furthestNode g \<and>
         advances (startPath src g) = advances g \<and>
         (\<forall>k. has (nodeInfo g) k \<longrightarrow> map_of (nodeInfo (startPath src g)) k = map_of (nodeInfo g) k) \<and>
         (has (nodeInfo g) src \<longrightarrow> startPath src g = g\<lparr>heads := removeAll src (heads g)\<rparr>) \<and>
         (\<not> has (nodeInfo g) src \<longrightarrow>
            startPath src g =
              g\<lparr>nodeInfo := nodeInfo g @
                     [(src, \<lparr>source = None, distance = 0, arrival = counter g, data = None\<rparr>)],
                counter := counter g + 1\<rparr>)"
proof -
  have s: "\<exists>si. map_of (nodeInfo (startPath src g)) src = Some si"
    by (auto simp: startPath_def has_def update_conv')
  have t: "map_of (nodeInfo (startPath src g)) tgt = Some ti"
    using assms(1) by (auto simp: startPath_def has_def update_conv')
  have 1: "addEdge tb fuel src tgt dat g = Some (Some ProtocolViolation, startPath src g)"
    using s t assms(2) by (auto simp: addEdge_def Let_def)
  have 2: "\<forall>k. has (nodeInfo g) k \<longrightarrow> map_of (nodeInfo (startPath src g)) k = map_of (nodeInfo g) k"
    by (auto simp: startPath_def has_def update_conv')
  have 3: "\<not> has (nodeInfo g) src \<longrightarrow>
            startPath src g =
              g\<lparr>nodeInfo := nodeInfo g @
                     [(src, \<lparr>source = None, distance = 0, arrival = counter g, data = None\<rparr>)],
                counter := counter g + 1\<rparr>"
    by (simp add: startPath_def has_def upd_new)
  show ?thesis using 1 2 3 by (simp add: startPath_def)
qed

theorem addEdge_join_rejected_witness:
  "addEdge string_toBoolean 0 (Some ''B'') (Some ''B'') None graph_AB
     = Some (Some ProtocolViolation, graph_AB\<lparr>heads := []\<rparr>) \<and>
   addEdge string_toBoolean 0 (Some ''X'') (Some ''B'') None graph_AB
     = Some (Some ProtocolViolation,
             graph_AB\<lparr>nodeInfo := nodeInfo graph_AB @
                         [(Some ''X'', \<lparr>source = None, distance = 0, arrival = 3, data = None\<rparr>)],
                      counter := 4\<rparr>)"
proof -
  have 1: "map_of (nodeInfo graph_AB) (Some ''B'')
             = Some \<lparr>source = Some ''A'', distance = 1, arrival = 2, data = None\<rparr>"
    by (simp add: graph_AB_def)
  have 2: "truthy string_toBoolean
             (source \<lparr>source = Some ''A'', distance = 1, arrival = 2, data = (None :: string option)\<rparr>)
           \<or> distance \<lparr>source = Some ''A'', distance = 1, arrival = 2, data = (None :: string option)\<rparr> \<noteq> 0"
    by (simp add: truthy_def string_toBoolean_def)
  have 3: "has (nodeInfo graph_AB) (Some ''B'')" "\<not> has (nodeInfo graph_AB) (Some ''X'')"
    "removeAll (Some ''B'') (heads graph_AB) = []" "counter graph_AB = 3"
    by (simp_all add: has_def graph_AB_def)
  show ?thesis
    using addEdge_join_rejected [OF 1 2, where fuel = 0 and src = "Some ''B''" and dat = None]
      addEdge_join_rejected [OF 1 2, where fuel = 0 and src = "Some ''X''" and dat = None] 3
    by simp
qed

text \<open>
  Claim C2 as stated (the graph after the failed call is the graph before it) fails on
  the graph with the edge A-B: the rejected edge X-B leaves the unknown source \<open>X\<close> in
  the map and the counter one higher, and the rejected edge B-B leaves the heads empty.
\<close>

theorem addEdge_join_mutates:
  "addEdge string_toBoolean 0 (Some ''X'') (Some ''B'') None graph_AB =
     Some (Some ProtocolViolation,
           graph_AB\<lparr>nodeInfo := nodeInfo graph_AB @
                       [(Some ''X'', \<lparr>source = None, distance = 0, arrival = 3, data = None\<rparr>)],
                    counter := 4\<rparr>) \<and>
   graph_AB\<lparr>nodeInfo := nodeInfo graph_AB @
                       [(Some ''X'', \<lparr>source = None, distance = 0, arrival = 3, data = None\<rparr>)],
                    counter := 4\<rparr> \<noteq> graph_AB \<and>
   addEdge string_toBoolean 0 (Some ''B'') (Some ''B'') None graph_AB
     = Some (Some ProtocolViolation, graph_AB\<lparr>heads := []\<rparr>) \<and>
   graph_AB\<lparr>heads := []\<rparr> \<noteq> graph_AB"
  by (simp add: addEdge_def startPath_def has_def graph_AB_def Let_def truthy_def
      string_toBoolean_def)

text \<open>
  Claim C3 asks that \<open>prune(k)\<close> return normally and leave no source that points to a
  removed node. On the graph with the edge A-B, \<open>prune(1)\<close> stores the trimmed map and
  then throws on the assignment to its \<open>const\<close> binding: the node \<open>B\<close> that is kept
  still has the removed node \<open>A\<close> as its source.
\<close>

theorem prune_throws:
  "prune 3 1 graph_AB =
     Some (Some TypeError,
           graph_AB\<lparr>nodeInfo := [(None, \<lparr>source = None, distance = - 1, arrival = 0, data = None\<rparr>),
                     (Some ''B'', \<lparr>source = Some ''A'', distance = 1, arrival = 2, data = None\<rparr>)]\<rparr>) \<and>
   has (nodeInfo graph_AB) (Some ''A'') \<and> size_of graph_AB = 2"
  by (simp add: prune_def graph_AB_def size_of_def toSpliced_def has_def numeral_3_eq_3)

text \<open>
  Claim C8 asks that the heads be the nodes of the map without an outgoing edge.
  \<open>removeNode\<close> does not touch the heads: after \<open>removeNode('B')\<close> on the graph with the
  edge A-B, the removed node \<open>B\<close> is still a head, and the node \<open>A\<close>, which is in the
  map and is no node's source, is not.
\<close>

theorem removeNode_stale_head:
  "removeNode (Some ''B'') graph_AB =
     (None, \<lparr>nodeInfo = [(None, \<lparr>source = None, distance = - 1, arrival = 0, data = None\<rparr>),
                        (Some ''A'', \<lparr>source = None, distance = 0, arrival = 1, data = None\<rparr>)],
             heads = [Some ''B''], furthestNode = Some ''A'', counter = 3,
             advances = [Some ''B'', Some ''A'']\<rparr>)"
  by (simp add: removeNode_def orphan_def graph_AB_def pick_def set_furthestNode_def Let_def)



lemma elem_le_sum: "x \<in> set xs \<Longrightarrow> f x \<le> sum_list (map f xs)" for f :: "'a \<Rightarrow> nat"
  by (induction xs) auto

lemma rank_enough: "rank ni node < enough ni"
proof (cases "map_of ni node")
  case None
  then show ?thesis by (cases node) (simp_all add: rank_def enough_def)
next
  case (Some i)
  then have "(node, i) \<in> set ni" by (rule map_of_SomeD)
  from elem_le_sum [OF this, of "\<lambda>(k, i). nat (distance i) + 1"]
  have "nat (distance i) + 1 \<le> sum_list (map (\<lambda>(k, i). nat (distance i) + 1) ni)"
    by simp
  with Some show ?thesis by (cases node) (auto simp: rank_def enough_def)
qed

lemma walk_total:
  assumes c: "\<forall>(k, i) \<in> set ni. k \<noteq> None \<longrightarrow>
         0 \<le> distance i \<and>
         (source i = None \<or> (\<exists>j. map_of ni (source i) = Some j \<and> distance j < distance i))"
    and m: "has memo None" and s: "has ni None"
  shows "has ni node \<Longrightarrow> rank ni node < fuel \<Longrightarrow> \<forall>n \<in> set path. has ni n \<Longrightarrow>
         \<exists>v path'. walk fuel ni memo node path = Some (Inr (v, path')) \<and> (\<forall>n \<in> set path'. has ni n)"
proof (induction fuel arbitrary: node path)
  case 0
  then show ?case by simp
next
  case (Suc fuel)
  show ?case
  proof (cases "map_of memo node")
    case (Some v)
    with Suc.prems(3) show ?thesis by simp
  next
    case None
    with m have nn: "node \<noteq> None" by (cases node) (auto simp: has_def)
    from Suc.prems(1) obtain i where i: "map_of ni node = Some i" by (auto simp: has_def)
    then have mi: "(node, i) \<in> set ni" by (rule map_of_SomeD)
    with c nn have di: "0 \<le> distance i"
      and si: "source i = None \<or> (\<exists>j. map_of ni (source i) = Some j \<and> distance j < distance i)"
      by auto
    have rn: "rank ni node = nat (distance i) + 1"
      using nn i by (auto simp: rank_def split: option.splits)
    have hs: "has ni (source i)"
    proof (cases "source i")
      case None
      then show ?thesis using s by simp
    next
      case (Some a)
      with si show ?thesis by (auto simp: has_def)
    qed
    have rs: "rank ni (source i) < fuel"
    proof (cases "source i")
      case None
      then show ?thesis using Suc.prems(2) rn by (simp add: rank_def)
    next
      case (Some a)
      with si obtain j where j: "map_of ni (source i) = Some j" "distance j < distance i" by auto
      from j(1) have "(source i, j) \<in> set ni" by (rule map_of_SomeD)
      with c Some have "0 \<le> distance j" by auto
      then show ?thesis using j Suc.prems(2) rn Some di by (simp add: rank_def)
    qed
    have "\<forall>n \<in> set (path @ [node]). has ni n" using Suc.prems(1,3) by simp
    from Suc.IH [OF hs rs this] show ?thesis using None i by simp
  qed
qed

lemma scorePath_total:
  "\<forall>n \<in> set ns. has ni n \<Longrightarrow> has scores None \<Longrightarrow>
   \<exists>scores'. scorePath ni ns score scores = Inr scores' \<and> has scores' None"
proof (induction ns arbitrary: score scores)
  case Nil
  then show ?case by simp
next
  case (Cons n ns)
  from Cons.prems(1) obtain i where i: "map_of ni n = Some i" by (auto simp: has_def)
  let ?s = "max (score - (distance i - 1)) (arrival i) + distance i"
  have "has (AList.update n ?s scores) None" using Cons.prems(2) by (rule has_update)
  with Cons.IH [where score = ?s and scores = "AList.update n ?s scores"] Cons.prems(1) i show ?case
    by (simp add: Let_def)
qed

lemma scoreHeads_total:
  assumes c: "\<forall>(k, i) \<in> set ni. k \<noteq> None \<longrightarrow>
         0 \<le> distance i \<and>
         (source i = None \<or> (\<exists>j. map_of ni (source i) = Some j \<and> distance j < distance i))"
    and s: "has ni None"
  shows "\<forall>h \<in> set hs. has ni h \<Longrightarrow> has scores None \<Longrightarrow>
         \<exists>scores'. scoreHeads (enough ni) ni hs scores = Some (Inr scores')"
proof (induction hs arbitrary: scores)
  case Nil
  then show ?case by simp
next
  case (Cons h hs)
  have "has ni h" using Cons.prems(1) by simp
  from walk_total [OF c Cons.prems(2) s this rank_enough, of "[]"] obtain v path where
    w: "walk (enough ni) ni scores h [] = Some (Inr (v, path))" and p: "\<forall>n \<in> set path. has ni n"
    by auto
  from p have "\<forall>n \<in> set (rev path). has ni n" by simp
  from scorePath_total [OF this Cons.prems(2), of v] obtain scores' where
    sp: "scorePath ni (rev path) v scores = Inr scores'" and h': "has scores' None"
    by auto
  from Cons.IH [OF _ h'] Cons.prems(1) obtain scores'' where
    "scoreHeads (enough ni) ni hs scores' = Some (Inr scores'')"
    by auto
  with w sp show ?case by simp
qed

text \<open>
  Claim C10. When \<open>maxSize\<close> is at least the size of the graph, \<open>prune(maxSize)\<close> leaves
  the graph as it is, whether it returns or throws: the map, the heads, the furthest
  node and the counter are unchanged and no event is dispatched. On a graph whose walks
  end, the call returns normally, given enough fuel.
\<close>

theorem prune_noop:
  assumes "size_of g \<le> maxSize"
  shows "(\<forall>fuel r g'. prune fuel maxSize g = Some (r, g') \<longrightarrow> g' = g) \<and>
         (chained g \<longrightarrow> (\<exists>fuel. prune fuel maxSize g = Some (None, g)))"
proof
  show "\<forall>fuel r g'. prune fuel maxSize g = Some (r, g') \<longrightarrow> g' = g"
    using assms by (auto simp: prune_def split: option.splits sum.splits)
next
  show "chained g \<longrightarrow> (\<exists>fuel. prune fuel maxSize g = Some (None, g))"
  proof
    assume ch: "chained g"
    then obtain s where s: "map_of (nodeInfo g) None = Some s"
      by (auto simp: chained_def has_def)
    have "has [(None, distance s + arrival s)] (None :: 'a node)" by (simp add: has_def)
    with ch obtain scores where
      "scoreHeads (enough (nodeInfo g)) (nodeInfo g) (heads g) [(None, distance s + arrival s)]
         = Some (Inr scores)"
      using scoreHeads_total [of "nodeInfo g" "heads g" "[(None, distance s + arrival s)]"]
      by (auto simp: chained_def)
    with s assms have "prune (enough (nodeInfo g)) maxSize g = Some (None, g)"
      by (simp add: prune_def)
    then show "\<exists>fuel. prune fuel maxSize g = Some (None, g)" ..
  qed
qed

theorem prune_noop_witness:
  "size_of graph_AB \<le> 5 \<and> chained graph_AB \<and> prune 3 5 graph_AB = Some (None, graph_AB)"
proof -
  have 1: "size_of graph_AB \<le> 5" by (simp add: size_of_def graph_AB_def)
  have 2: "chained graph_AB" by (simp add: chained_def graph_AB_def has_def)
  have 3: "prune 3 5 graph_AB = Some (None, snd (the (prune 3 5 graph_AB)))"
    by (simp add: prune_def graph_AB_def size_of_def has_def numeral_3_eq_3)
  with prune_noop [OF 1] have "snd (the (prune 3 5 graph_AB)) = graph_AB" by blast
  with 1 2 3 show ?thesis by simp
qed

end
